theory Spec2Isabelle
  imports Complex_Main
begin

section \<open>Numbers, strings and exceptions of the Python source\<close>

text \<open>
  The trading code computes with Python floats. They are embedded as exact rationals:
  every float is a rational, and the arithmetic of the source (\<open>+\<close>, \<open>-\<close>, \<open>*\<close>, \<open>/\<close>, \<open>%\<close>,
  \<open>round\<close>) is taken at its mathematical value. The rounding error of IEEE doubles is
  outside this embedding. In the counterexamples below, the balances, risks, prices and lot
  sizes that enter the arithmetic are binary fractions, on which the float operations
  involved are exact; the example with risk 0.1 and price 20000 is evaluated only up to the
  call of \<open>round\<close>.
\<close>

type_synonym num = rat

datatype pyerr =
    KeyError
  | NameError
  | UnboundLocalError
  | ZeroDivisionError
  | IndexError
  | TypeError
  | ExchangeError string

text \<open>Python's \<open>a % b\<close> on floats: the remainder has the sign of \<open>b\<close>; \<open>b = 0\<close> raises.\<close>

definition py_mod :: "num \<Rightarrow> num \<Rightarrow> pyerr + num" where
  "py_mod a b = (if b = 0 then Inl ZeroDivisionError else Inr (a - b * of_int \<lfloor>a / b\<rfloor>))"

text \<open>Rounding to the nearest integer, ties to the even neighbour.\<close>

definition round_half_even :: "num \<Rightarrow> int" where
  "round_half_even y =
     (let f = \<lfloor>y\<rfloor>; d = y - of_int f
      in if d < 1 / 2 then f
         else if 1 / 2 < d then f + 1
         else if even f then f else f + 1)"

text \<open>Python's \<open>round(x, ndigits)\<close> on a float, for an integer \<open>ndigits\<close> of either sign.\<close>

definition py_round :: "num \<Rightarrow> int \<Rightarrow> num" where
  "py_round x n =
     (if 0 \<le> n then of_int (round_half_even (x * 10 ^ nat n)) / 10 ^ nat n
      else of_int (round_half_even (x / 10 ^ nat (- n))) * 10 ^ nat (- n))"

text \<open>
  \<open>s.replace(pat, '')\<close>: every non-overlapping occurrence of \<open>pat\<close> is removed, scanning
  from the left; an empty \<open>pat\<close> leaves \<open>s\<close> as it is.
\<close>

function py_remove :: "string \<Rightarrow> string \<Rightarrow> string" where
  "py_remove pat [] = []"
| "py_remove pat (c # cs) =
     (if pat \<noteq> [] \<and> take (length pat) (c # cs) = pat
      then py_remove pat (drop (length pat) (c # cs))
      else c # py_remove pat cs)"
  by pat_completeness auto
termination
  by (relation "measure (\<lambda>(pat, s). length s)") auto

text \<open>\<open>s.split(sep)\<close> for a one-character separator; the result is never empty.\<close>

fun py_split :: "char \<Rightarrow> string \<Rightarrow> string list" where
  "py_split sep [] = [[]]"
| "py_split sep (c # cs) =
     (if c = sep then [] # py_split sep cs
      else (case py_split sep cs of
              [] \<Rightarrow> [[c]]
            | w # ws \<Rightarrow> (c # w) # ws))"

section \<open>The exit predicates of \<open>aux.py\<close>\<close>



section \<open>The exchange connection\<close>

text \<open>
  The connection object \<open>self.conn\<close> is the exchange client, which is not part of the
  repository. It is a parameter: a record giving, for each method the code calls, what the
  call returns or raises. Payloads are dictionaries with string keys.
\<close>

type_synonym payload = "(string \<times> string) list"

record symbol_data =
  sd_symbol :: string
  quoteAssetPrecision :: int
  filters :: "(string \<times> num) list"

record exchange =
  get_account :: "pyerr + (string \<times> num \<times> num) list"
  order_market_buy :: "string \<Rightarrow> num \<Rightarrow> pyerr + payload"
  order_limit_buy :: "string \<Rightarrow> num \<Rightarrow> num \<Rightarrow> pyerr + payload"
  order_market_sell :: "string \<Rightarrow> num \<Rightarrow> pyerr + payload"
  get_symbol_info :: "string \<Rightarrow> pyerr + symbol_data option"
  conn_cancel_order :: "string \<Rightarrow> string \<Rightarrow> pyerr + payload"

text \<open>The calls made on the connection, in order.\<close>

datatype call =
    GetAccount
  | OrderMarketBuy string num
  | OrderLimitBuy string num num
  | OrderMarketSell string num
  | GetSymbolInfo string
  | CancelOrder string string

fun is_order :: "call \<Rightarrow> bool" where
  "is_order (OrderMarketBuy _ _) = True"
| "is_order (OrderLimitBuy _ _ _) = True"
| "is_order (OrderMarketSell _ _) = True"
| "is_order _ = False"

definition no_order :: "call list \<Rightarrow> bool" where
  "no_order cs = (filter is_order cs = [])"

section \<open>Class \<open>Binance\<close> of \<open>riskmanagement.py\<close>\<close>

record asset_info =
  symbol :: string
  precision :: int
  lot_size :: num
  more_data :: symbol_data

text \<open>An entry of \<open>self.assets\<close>; \<open>info = None\<close> is the empty dictionary \<open>{}\<close>.\<close>

record asset =
  available :: num
  pending :: num
  info :: "asset_info option"

text \<open>
  The object's fields. \<open>var.usdt_min\<close>, \<open>var.btc_min\<close> and \<open>var.risk\<close> come from a
  configuration module that is not in the repository and are parameters here.
\<close>

record binance =
  usdt_min :: num
  btc_min :: num
  risk :: num
  assets :: "string \<rightharpoonup> asset"

definition min_limit :: "binance \<Rightarrow> string \<rightharpoonup> num" where
  "min_limit b = [''USDT'' \<mapsto> usdt_min b, ''BTC'' \<mapsto> btc_min b]"

definition coin_precision :: "string \<rightharpoonup> int" where
  "coin_precision = [''USDT'' \<mapsto> 2, ''BTC'' \<mapsto> 8]"

text \<open>
  What a method does: it returns a value or raises, leaves the object in a new state, and
  has made some calls on the connection.
\<close>

type_synonym 'a outcome = "(pyerr + 'a) \<times> binance \<times> call list"

text \<open>The dictionaries returned next to the success flag.\<close>

datatype reply =
    ErrorMsg string
  | ErrorExc pyerr
  | Order payload
  | SellFailure pyerr string num num "asset_info option"

subsection \<open>\<open>refresh_balance\<close>\<close>

definition upsert :: "string \<times> num \<times> num \<Rightarrow> (string \<rightharpoonup> asset) \<Rightarrow> (string \<rightharpoonup> asset)" where
  "upsert c m =
     (case c of (name, free, locked) \<Rightarrow>
        (case m name of
           Some a \<Rightarrow> m(name \<mapsto> a\<lparr>available := free, pending := locked\<rparr>)
         | None \<Rightarrow> m(name \<mapsto> \<lparr>available = free, pending = locked, info = None\<rparr>)))"

definition refresh_balance :: "binance \<Rightarrow> exchange \<Rightarrow> unit outcome" where
  "refresh_balance b ex =
     (case get_account ex of
        Inl e \<Rightarrow> (Inl e, b, [GetAccount])
      | Inr balances \<Rightarrow> (Inr (), b\<lparr>assets := fold upsert balances (assets b)\<rparr>, [GetAccount]))"

subsection \<open>\<open>asset_info\<close>\<close>

definition asset_info :: "exchange \<Rightarrow> string \<Rightarrow> (pyerr + asset_info) \<times> call list" where
  "asset_info ex pair =
     (case get_symbol_info ex pair of
        Inl e \<Rightarrow> (Inl e, [GetSymbolInfo pair])
      | Inr None \<Rightarrow> (Inl TypeError, [GetSymbolInfo pair])
      | Inr (Some d) \<Rightarrow>
          (case filter (\<lambda>a. fst a = ''LOT_SIZE'') (filters d) of
             [] \<Rightarrow> (Inl IndexError, [GetSymbolInfo pair])
           | a # _ \<Rightarrow>
               (Inr \<lparr>symbol = sd_symbol d, precision = quoteAssetPrecision d,
                     lot_size = snd a, more_data = d\<rparr>,
                [GetSymbolInfo pair])))"

subsection \<open>\<open>buy\<close>\<close>

text \<open>Lines 145 to 152: the balance the sizing starts from, and the amount to spend.\<close>

definition cur_balance :: "asset \<Rightarrow> num" where
  "cur_balance a = available a + pending a"

definition quantity_to_buy :: "binance \<Rightarrow> asset \<Rightarrow> num" where
  "quantity_to_buy b a = cur_balance a * risk b"

text \<open>
  Lines 157 to 169: the placement inside \<open>try\<close>. An exception of the call is caught and
  becomes the failure result of \<open>buy\<close>, so the outcome is either that result (\<open>Inl\<close>) or the
  order payload (\<open>Inr\<close>).
\<close>

definition place_buy ::
  "binance \<Rightarrow> exchange \<Rightarrow> asset \<Rightarrow> string \<Rightarrow> string \<Rightarrow> num \<Rightarrow> (reply + payload) \<times> call list"
where
  "place_buy b ex a coin currency price =
     (case coin_precision currency of
        None \<Rightarrow> (Inl (ErrorExc KeyError), [])
      | Some p \<Rightarrow>
          if price = 0 then
            (let q = py_round (quantity_to_buy b a) p in
             case order_market_buy ex coin q of
               Inl e \<Rightarrow> (Inl (ErrorExc e), [OrderMarketBuy coin q])
             | Inr buy_order \<Rightarrow> (Inr buy_order, [OrderMarketBuy coin q]))
          else
            (let q = py_round (quantity_to_buy b a / price) p in
             case order_limit_buy ex coin price q of
               Inl e \<Rightarrow> (Inl (ErrorExc e), [OrderLimitBuy coin price q])
             | Inr buy_order \<Rightarrow> (Inr buy_order, [OrderLimitBuy coin price q])))"

text \<open>
  Lines 171 to 177: the test of the order's status. On \<open>FILLED\<close> the right-hand side
  \<open>self.asset_info(coin)\<close> is evaluated first, then the entry of the bought asset is looked
  up and its \<open>info\<close> stored; neither step is inside a \<open>try\<close>.
\<close>

definition check_buy ::
  "binance \<Rightarrow> exchange \<Rightarrow> string \<Rightarrow> string \<Rightarrow> payload \<Rightarrow> (bool \<times> reply) outcome"
where
  "check_buy b ex coin currency buy_order =
     (case map_of buy_order ''status'' of
        None \<Rightarrow> (Inl KeyError, b, [])
      | Some st \<Rightarrow>
          if st = ''FILLED'' then
            (case asset_info ex coin of
               (Inl e, cs) \<Rightarrow> (Inl e, b, cs)
             | (Inr i, cs) \<Rightarrow>
                 (case assets b (py_remove currency coin) of
                    None \<Rightarrow> (Inl KeyError, b, cs)
                  | Some a \<Rightarrow>
                      (Inr (True, Order buy_order),
                       b\<lparr>assets := (assets b)(py_remove currency coin \<mapsto> a\<lparr>info := Some i\<rparr>)\<rparr>,
                       cs)))
          else (Inr (False, Order buy_order), b, []))"

text \<open>Lines 143 to 155 and the whole method: \<open>buy(coin, currency, price)\<close>.\<close>

definition size_and_buy ::
  "binance \<Rightarrow> exchange \<Rightarrow> string \<Rightarrow> string \<Rightarrow> num \<Rightarrow> (bool \<times> reply) outcome"
where
  "size_and_buy b ex coin currency price =
     (case assets b currency of
        None \<Rightarrow> (Inl KeyError, b, [])
      | Some a \<Rightarrow>
          (case min_limit b currency of
             None \<Rightarrow> (Inl KeyError, b, [])
           | Some m \<Rightarrow>
               if cur_balance a < m then
                 (Inr (False, ErrorMsg ''Insufficient funds''), b, [])
               else if quantity_to_buy b a > available a then
                 (Inr (False, ErrorMsg ''Portfolio has no space for new assets''), b, [])
               else
                 (case place_buy b ex a coin currency price of
                    (Inl failure, cs) \<Rightarrow> (Inr (False, failure), b, cs)
                  | (Inr buy_order, cs) \<Rightarrow>
                      (case check_buy b ex coin currency buy_order of
                         (r, b', cs') \<Rightarrow> (r, b', cs @ cs')))))"

definition buy ::
  "binance \<Rightarrow> exchange \<Rightarrow> string \<Rightarrow> string \<Rightarrow> num \<Rightarrow> (bool \<times> reply) outcome"
where
  "buy b ex coin currency price =
     (case refresh_balance b ex of
        (Inl e, b1, cs) \<Rightarrow> (Inl e, b1, cs)
      | (Inr _, b1, cs) \<Rightarrow>
          (case size_and_buy b1 ex coin currency price of
             (r, b2, cs') \<Rightarrow> (r, b2, cs @ cs')))"

text \<open>The three parts of an outcome.\<close>

definition result :: "'a outcome \<Rightarrow> pyerr + 'a" where
  "result out = fst out"

definition state_of :: "'a outcome \<Rightarrow> binance" where
  "state_of out = fst (snd out)"

definition calls :: "'a outcome \<Rightarrow> call list" where
  "calls out = snd (snd out)"

subsection \<open>\<open>sell\<close>\<close>

text \<open>
  Lines 196 to 199: the quantity to sell, from the entry of the asset. A missing
  \<open>lot_size\<close> (the \<open>info\<close> dictionary is still empty) raises \<open>KeyError\<close>, a lot size of
  zero raises \<open>ZeroDivisionError\<close>.
\<close>

definition prec_quantity :: "asset \<Rightarrow> pyerr + num" where
  "prec_quantity a =
     (case info a of
        None \<Rightarrow> Inl KeyError
      | Some i \<Rightarrow>
          (case py_mod (available a) (lot_size i) of
             Inl e \<Rightarrow> Inl e
           | Inr r \<Rightarrow> Inr (py_round (available a - r) (precision i))))"

text \<open>
  \<open>sell(coin, currency, quantity)\<close>. The handler of the \<open>try\<close> builds a dictionary that reads
  the local \<open>prec_quantity\<close>: when the exception came before that local was assigned, the
  handler itself raises \<open>UnboundLocalError\<close>. The final \<open>return True, sell_order\<close> reads a
  local that only the branch \<open>not quantity\<close> assigns. The quantity goes to the exchange as
  \<open>str(prec_quantity)\<close>; the call is recorded with the number.
\<close>

definition sell ::
  "binance \<Rightarrow> exchange \<Rightarrow> string \<Rightarrow> string \<Rightarrow> num \<Rightarrow> (bool \<times> reply) outcome"
where
  "sell b ex coin currency quantity =
     (case refresh_balance b ex of
        (Inl e, b1, cs) \<Rightarrow> (Inl e, b1, cs)
      | (Inr _, b1, cs) \<Rightarrow>
          if quantity = 0 then
            (case assets b1 (py_remove currency coin) of
               None \<Rightarrow> (Inl UnboundLocalError, b1, cs)
             | Some a \<Rightarrow>
                 (case prec_quantity a of
                    Inl e \<Rightarrow> (Inl UnboundLocalError, b1, cs)
                  | Inr q \<Rightarrow>
                      (case order_market_sell ex coin q of
                         Inl e \<Rightarrow>
                           (Inr (False, SellFailure e coin q (available a) (info a)), b1,
                            cs @ [OrderMarketSell coin q])
                       | Inr sell_order \<Rightarrow>
                           (Inr (True, Order sell_order), b1, cs @ [OrderMarketSell coin q]))))
          else (Inl UnboundLocalError, b1, cs))"

subsection \<open>\<open>get_balances\<close> and \<open>cancel_order\<close>\<close>

text \<open>The argument \<open>coins\<close>: \<open>None\<close>, one name, or a list of names.\<close>

datatype coins = NoCoins | OneCoin string | CoinList "string list"

text \<open>What \<open>get_balances\<close> returns: a dictionary of entries, or one entry.\<close>

datatype balances = Dict "string \<rightharpoonup> asset" | Entry asset

definition get_balances :: "binance \<Rightarrow> exchange \<Rightarrow> coins \<Rightarrow> balances outcome" where
  "get_balances b ex cn =
     (case refresh_balance b ex of
        (Inl e, b1, cs) \<Rightarrow> (Inl e, b1, cs)
      | (Inr _, b1, cs) \<Rightarrow>
          (case cn of
             NoCoins \<Rightarrow> (Inr (Dict (assets b1)), b1, cs)
           | CoinList xs \<Rightarrow>
               if xs = [] then (Inr (Dict (assets b1)), b1, cs)
               else if list_all (\<lambda>c. assets b1 c \<noteq> None) xs
               then (Inr (Dict (assets b1 |` set xs)), b1, cs)
               else (Inl KeyError, b1, cs)
           | OneCoin c \<Rightarrow>
               if c = [] then (Inr (Dict (assets b1)), b1, cs)
               else (case assets b1 c of
                       None \<Rightarrow> (Inl KeyError, b1, cs)
                     | Some a \<Rightarrow> (Inr (Entry a), b1, cs))))"

text \<open>
  The class defines \<open>cancel_order\<close> twice; the second definition, with a symbol and an
  order id, is the one the class keeps.
\<close>

definition cancel_order :: "binance \<Rightarrow> exchange \<Rightarrow> string \<Rightarrow> string \<Rightarrow> payload outcome" where
  "cancel_order b ex sy order_id =
     (case conn_cancel_order ex sy order_id of
        Inl e \<Rightarrow> (Inl e, b, [CancelOrder sy order_id])
      | Inr response \<Rightarrow> (Inr response, b, [CancelOrder sy order_id]))"

section \<open>Class \<open>Bittrex\<close> of \<open>riskmanagement.py\<close>\<close>

record bx_response =
  success :: bool
  message :: string
  uuid :: string

record bx_order =
  IsOpen :: bool
  PricePerUnit :: num
  Quantity :: num

record bittrex_conn =
  buy_limit :: "string \<Rightarrow> num \<Rightarrow> num \<Rightarrow> pyerr + bx_response"
  get_order :: "string \<Rightarrow> pyerr + bx_order"
  cancel :: "string \<Rightarrow> pyerr + bx_response"

datatype bx_call = BuyLimit string num num | GetOrder string | Cancel string

record bittrex =
  bx_available :: "string \<rightharpoonup> num"
  bx_min_limit :: num
  bx_risk :: num

datatype bx_reply = Message string | Purchase num num

text \<open>
  Names and their values. Inside \<open>Bittrex.buy\<close>, at the call of \<open>buy_limit\<close>, the names bound
  are the parameters and \<open>to_spend\<close>, then the names the module binds at top level (its
  imports and its two classes). No assignment to \<open>rate\<close> occurs in the method or in the
  module, and no builtin has that name.
\<close>

datatype pyval = Num num | Str string | Obj

definition module_globals :: "string \<rightharpoonup> pyval" where
  "module_globals =
     [''time'' \<mapsto> Obj, ''Tuple'' \<mapsto> Obj, ''lib_bittrex'' \<mapsto> Obj, ''Bnb'' \<mapsto> Obj,
      ''var'' \<mapsto> Obj, ''aux'' \<mapsto> Obj, ''log'' \<mapsto> Obj, ''Bittrex'' \<mapsto> Obj, ''Binance'' \<mapsto> Obj]"

definition buy_locals :: "string \<Rightarrow> num \<Rightarrow> num \<Rightarrow> num \<Rightarrow> string \<rightharpoonup> pyval" where
  "buy_locals coin amount price to_spend =
     [''self'' \<mapsto> Obj, ''coin'' \<mapsto> Str coin, ''amount'' \<mapsto> Num amount,
      ''price'' \<mapsto> Num price, ''to_spend'' \<mapsto> Num to_spend]"

definition lookup_name :: "(string \<rightharpoonup> pyval) \<Rightarrow> string \<Rightarrow> pyerr + pyval" where
  "lookup_name env n = (case env n of None \<Rightarrow> Inl NameError | Some v \<Rightarrow> Inr v)"

text \<open>\<open>rate / to_spend\<close> for a value \<open>rate\<close> and a float \<open>to_spend\<close>.\<close>

definition div_val :: "pyval \<Rightarrow> num \<Rightarrow> pyerr + num \<times> num" where
  "div_val v d =
     (case v of
        Num r \<Rightarrow> if d = 0 then Inl ZeroDivisionError else Inr (r / d, r)
      | _ \<Rightarrow> Inl TypeError)"

text \<open>Lines 54 to 68: what follows the call of \<open>buy_limit\<close>, had it returned \<open>res\<close>.\<close>

definition settle_buy ::
  "bittrex_conn \<Rightarrow> bx_response \<Rightarrow> (pyerr + bool \<times> bx_reply) \<times> bx_call list"
where
  "settle_buy conn res =
     (if \<not> success res then (Inr (False, Message (message res)), [])
      else
        (case get_order conn (uuid res) of
           Inl e \<Rightarrow> (Inl e, [GetOrder (uuid res)])
         | Inr order \<Rightarrow>
             if \<not> IsOpen order
             then (Inr (True, Purchase (PricePerUnit order) (Quantity order)),
                   [GetOrder (uuid res)])
             else
               (case cancel conn (uuid res) of
                  Inl e \<Rightarrow> (Inl e, [GetOrder (uuid res), Cancel (uuid res)])
                | Inr c \<Rightarrow>
                    (Inr (False, Message (message c)),
                     [GetOrder (uuid res), Cancel (uuid res)]))))"

text \<open>\<open>Bittrex.buy(coin, amount, price)\<close>; the object is not changed by it.\<close>

definition bittrex_buy ::
  "bittrex \<Rightarrow> bittrex_conn \<Rightarrow> string \<Rightarrow> num \<Rightarrow> num \<Rightarrow>
     (pyerr + bool \<times> bx_reply) \<times> bx_call list"
where
  "bittrex_buy bx conn coin amount price =
     (case py_split (CHR ''-'') coin of
        [] \<Rightarrow> (Inl IndexError, [])
      | base # _ \<Rightarrow>
          (case bx_available bx base of
             None \<Rightarrow> (Inl KeyError, [])
           | Some av \<Rightarrow>
               if av \<le> bx_min_limit bx
               then (Inr (False, Message ''Cash under Minimum limit.''), [])
               else
                 (let to_spend = av * bx_risk bx in
                  case lookup_name (module_globals ++ buy_locals coin amount price to_spend)
                         ''rate'' of
                    Inl e \<Rightarrow> (Inl e, [])
                  | Inr rate \<Rightarrow>
                      (case div_val rate to_spend of
                         Inl e \<Rightarrow> (Inl e, [])
                       | Inr (q, r) \<Rightarrow>
                           (case buy_limit conn coin q r of
                              Inl e \<Rightarrow> (Inl e, [BuyLimit coin q r])
                            | Inr res \<Rightarrow>
                                (case settle_buy conn res of
                                   (out, cs) \<Rightarrow> (out, BuyLimit coin q r # cs)))))))"

section \<open>Concrete accounts and exchanges\<close>

text \<open>
  An exchange that reports the given balances, answers every order with a payload of the
  given status, and knows every symbol with quote precision 8 and lot size 0.001.
\<close>

definition answering :: "(string \<times> num \<times> num) list \<Rightarrow> string \<Rightarrow> exchange" where
  "answering balances st =
     \<lparr>get_account = Inr balances,
      order_market_buy = (\<lambda>_ _. Inr [(''status'', st)]),
      order_limit_buy = (\<lambda>_ _ _. Inr [(''status'', st)]),
      order_market_sell = (\<lambda>_ _. Inr [(''status'', st)]),
      get_symbol_info = (\<lambda>s. Inr (Some \<lparr>sd_symbol = s, quoteAssetPrecision = 8,
                                         filters = [(''PRICE_FILTER'', 1 / 100),
                                                    (''LOT_SIZE'', 1 / 1000)]\<rparr>)),
      conn_cancel_order = (\<lambda>_ _. Inr [(''status'', ''CANCELED'')])\<rparr>"

text \<open>An exchange whose order placement raises.\<close>

definition rejecting :: "(string \<times> num \<times> num) list \<Rightarrow> exchange" where
  "rejecting balances =
     (answering balances ''NEW'')
       \<lparr>order_market_buy := (\<lambda>_ _. Inl (ExchangeError ''rejected'')),
        order_limit_buy := (\<lambda>_ _ _. Inl (ExchangeError ''rejected'')),
        order_market_sell := (\<lambda>_ _. Inl (ExchangeError ''rejected''))\<rparr>"

text \<open>An account object with the given thresholds and risk, before its first refresh.\<close>

definition account :: "num \<Rightarrow> num \<Rightarrow> binance" where
  "account m r = \<lparr>usdt_min = m, btc_min = m, risk = r, assets = Map.empty\<rparr>"

text \<open>An account that holds one asset whose trading metadata is already cached.\<close>

definition holding :: "string \<Rightarrow> num \<Rightarrow> int \<Rightarrow> binance" where
  "holding name lot p =
     \<lparr>usdt_min = 50, btc_min = 0, risk = 1 / 8,
      assets = [name \<mapsto> \<lparr>available = 0, pending = 0,
                           info = Some \<lparr>symbol = name @ ''USDT'', precision = p, lot_size = lot,
                                        more_data = \<lparr>sd_symbol = name @ ''USDT'',
                                                      quoteAssetPrecision = p,
                                                      filters = [(''LOT_SIZE'', lot)]\<rparr>\<rparr>\<rparr>]\<rparr>"

section \<open>Evaluation on numerals\<close>

lemma floor_rat_numeral:
  "\<lfloor>(numeral v :: rat) / numeral w\<rfloor> = numeral v div numeral w"
  using floor_divide_of_int_eq [of "numeral v" "numeral w", where ?'a = rat] by simp

lemma floor_rat_one_numeral:
  "\<lfloor>(1 :: rat) / numeral w\<rfloor> = 1 div numeral w"
  using floor_divide_of_int_eq [of 1 "numeral w", where ?'a = rat] by simp

lemmas outcome_defs = result_def state_of_def calls_def

lemmas buy_defs =
  buy_def size_and_buy_def check_buy_def place_buy_def refresh_balance_def asset_info_def
  upsert_def cur_balance_def quantity_to_buy_def min_limit_def coin_precision_def

lemmas round_defs =
  py_round_def round_half_even_def Let_def floor_rat_numeral floor_rat_one_numeral

lemmas example_defs = answering_def rejecting_def account_def holding_def

section \<open>The stages of \<open>buy\<close>\<close>

lemma buy_refreshed:
  assumes "get_account ex = Inr balances"
  shows "buy b ex coin currency price =
    (case size_and_buy (state_of (refresh_balance b ex)) ex coin currency price of
       (r, b2, cs) \<Rightarrow> (r, b2, GetAccount # cs))"
  using assms by (simp add: buy_def refresh_balance_def state_of_def)

lemma buy_result:
  assumes "get_account ex = Inr balances"
  shows "result (buy b ex coin currency price) =
    fst (size_and_buy (state_of (refresh_balance b ex)) ex coin currency price)"
  using assms by (simp add: buy_def refresh_balance_def outcome_defs case_prod_beta)

lemma buy_calls:
  assumes "get_account ex = Inr balances"
  shows "calls (buy b ex coin currency price) =
    GetAccount # snd (snd (size_and_buy (state_of (refresh_balance b ex)) ex coin currency price))"
  using assms by (simp add: buy_def refresh_balance_def outcome_defs case_prod_beta)

lemma min_limit_refresh:
  "min_limit (state_of (refresh_balance b ex)) = min_limit b"
  by (auto simp: min_limit_def refresh_balance_def state_of_def split: sum.splits)

lemma risk_refresh:
  "risk (state_of (refresh_balance b ex)) = risk b"
  by (auto simp: refresh_balance_def state_of_def split: sum.splits)

lemma quantity_to_buy_refresh:
  "quantity_to_buy (state_of (refresh_balance b ex)) a = quantity_to_buy b a"
  by (simp add: quantity_to_buy_def risk_refresh)

lemma coin_precision_of_min_limit:
  assumes "min_limit b currency = Some m"
  shows "coin_precision currency = Some (if currency = ''USDT'' then 2 else 8)"
  using assms by (auto simp: min_limit_def coin_precision_def split: if_splits)

lemma check_buy_no_order:
  "filter is_order (snd (snd (check_buy b ex coin currency buy_order))) = []"
  by (auto simp: check_buy_def asset_info_def split: option.splits sum.splits list.splits)

lemma place_buy_market:
  assumes "coin_precision currency = Some p"
  shows "snd (place_buy b ex a coin currency 0) =
    [OrderMarketBuy coin (py_round (quantity_to_buy b a) p)]"
  using assms by (simp add: place_buy_def Let_def split: sum.splits)

lemma place_buy_limit:
  assumes "coin_precision currency = Some p" and "price \<noteq> 0"
  shows "snd (place_buy b ex a coin currency price) =
    [OrderLimitBuy coin price (py_round (quantity_to_buy b a / price) p)]"
  using assms by (simp add: place_buy_def Let_def split: sum.splits)

lemma size_and_buy_orders:
  assumes "assets b currency = Some a" and "min_limit b currency = Some m"
    and "\<not> cur_balance a < m" and "\<not> available a < quantity_to_buy b a"
  shows "filter is_order (snd (snd (size_and_buy b ex coin currency price))) =
    filter is_order (snd (place_buy b ex a coin currency price))"
  using assms check_buy_no_order [of b ex coin currency]
  by (simp add: size_and_buy_def case_prod_beta split: sum.splits prod.splits)

lemma size_and_buy_below_minimum:
  assumes "assets b currency = Some a" and "min_limit b currency = Some m"
    and "cur_balance a < m"
  shows "size_and_buy b ex coin currency price =
    (Inr (False, ErrorMsg ''Insufficient funds''), b, [])"
  using assms by (simp add: size_and_buy_def)

lemma size_and_buy_no_space:
  assumes "assets b currency = Some a" and "min_limit b currency = Some m"
    and "\<not> cur_balance a < m" and "available a < quantity_to_buy b a"
  shows "size_and_buy b ex coin currency price =
    (Inr (False, ErrorMsg ''Portfolio has no space for new assets''), b, [])"
  using assms by (simp add: size_and_buy_def)

lemma spend_le_balance:
  fixes B r :: rat
  assumes "0 < r" "r \<le> 1" "0 \<le> B"
  shows "B * r \<le> B"
  using assms by (simp add: mult_left_le)

section \<open>The spend of a buy\<close>

text \<open>
  Claim C1, as the code has it. After the refresh, for a quote currency with a minimum:
  the amount to spend is (available + pending) times the risk; for a risk in (0, 1] and a
  non-negative balance it is at most available + pending; whenever it exceeds the
  available balance, \<open>buy\<close> returns a failure result and its only call on the exchange is
  the balance refresh; a market buy that passes both checks places one order, for the
  amount rounded to the quote currency's decimals; and an order is placed only when the
  amount is at most the available balance.
\<close>

theorem buy_spend_guard:
  assumes "get_account ex = Inr balances"
    and "assets (state_of (refresh_balance b ex)) currency = Some a"
    and "min_limit b currency = Some m"
  shows "quantity_to_buy b a = (available a + pending a) * risk b
    \<and> (0 < risk b \<and> risk b \<le> 1 \<and> 0 \<le> available a + pending a
         \<longrightarrow> quantity_to_buy b a \<le> available a + pending a)
    \<and> (available a < quantity_to_buy b a \<longrightarrow>
         result (buy b ex coin currency price) =
           Inr (False, ErrorMsg (if available a + pending a < m then ''Insufficient funds''
                                 else ''Portfolio has no space for new assets''))
         \<and> calls (buy b ex coin currency price) = [GetAccount])
    \<and> (\<not> available a + pending a < m \<and> \<not> available a < quantity_to_buy b a \<longrightarrow>
         filter is_order (calls (buy b ex coin currency 0)) =
           [OrderMarketBuy coin
              (py_round ((available a + pending a) * risk b) (if currency = ''USDT'' then 2 else 8))])
    \<and> (\<not> no_order (calls (buy b ex coin currency price)) \<longrightarrow> quantity_to_buy b a \<le> available a)"
proof -
  let ?b1 = "state_of (refresh_balance b ex)"
  have m: "min_limit ?b1 currency = Some m"
    using assms(3) by (simp add: min_limit_refresh)
  have q: "quantity_to_buy ?b1 a = quantity_to_buy b a"
    by (rule quantity_to_buy_refresh)
  have formula: "quantity_to_buy b a = (available a + pending a) * risk b"
    by (simp add: quantity_to_buy_def cur_balance_def)
  have bound: "quantity_to_buy b a \<le> available a + pending a"
    if "0 < risk b \<and> risk b \<le> 1 \<and> 0 \<le> available a + pending a"
    using that spend_le_balance [of "risk b" "available a + pending a"] by (simp add: formula)
  have guard: "buy b ex coin currency price =
      (Inr (False, ErrorMsg (if available a + pending a < m then ''Insufficient funds''
                             else ''Portfolio has no space for new assets'')), ?b1, [GetAccount])"
    if over: "available a < quantity_to_buy b a"
  proof (cases "cur_balance a < m")
    case True
    then show ?thesis
      using size_and_buy_below_minimum [OF assms(2) m True]
      by (simp add: buy_refreshed [OF assms(1)] cur_balance_def)
  next
    case False
    then show ?thesis
      using size_and_buy_no_space [OF assms(2) m False] over q
      by (simp add: buy_refreshed [OF assms(1)] cur_balance_def)
  qed
  have market: "filter is_order (calls (buy b ex coin currency 0)) =
      [OrderMarketBuy coin
         (py_round ((available a + pending a) * risk b) (if currency = ''USDT'' then 2 else 8))]"
    if "\<not> available a + pending a < m \<and> \<not> available a < quantity_to_buy b a"
    using that size_and_buy_orders [OF assms(2) m, of ex coin 0] q
      place_buy_market [OF coin_precision_of_min_limit [OF assms(3)], of ?b1 ex a coin]
    by (simp add: buy_calls [OF assms(1)] cur_balance_def formula)
  have placed: "quantity_to_buy b a \<le> available a"
    if "\<not> no_order (calls (buy b ex coin currency price))"
  proof (rule ccontr)
    assume "\<not> quantity_to_buy b a \<le> available a"
    then have "buy b ex coin currency price =
      (Inr (False, ErrorMsg (if available a + pending a < m then ''Insufficient funds''
                             else ''Portfolio has no space for new assets'')), ?b1, [GetAccount])"
      using guard by simp
    then have "no_order (calls (buy b ex coin currency price))"
      by (simp add: calls_def no_order_def)
    with that show False by simp
  qed
  from formula bound guard market placed show ?thesis
    by (simp add: result_def calls_def)
qed


theorem buy_spend_guard_witness:
  "quantity_to_buy (account 50 (1 / 2)) \<lparr>available = 10, pending = 1000, info = None\<rparr> = 505
   \<and> (505 :: rat) \<le> 10 + 1000
   \<and> result (buy (account 50 (1 / 2)) (answering [(''USDT'', 10, 1000)] ''FILLED'')
         ''BTCUSDT'' ''USDT'' 0)
       = Inr (False, ErrorMsg ''Portfolio has no space for new assets'')
   \<and> calls (buy (account 50 (1 / 2)) (answering [(''USDT'', 10, 1000)] ''FILLED'')
         ''BTCUSDT'' ''USDT'' 0) = [GetAccount]
   \<and> filter is_order (calls (buy (account 50 (1 / 4))
         (answering [(''USDT'', 1000, 1000)] ''FILLED'') ''BTCUSDT'' ''USDT'' 0))
       = [OrderMarketBuy ''BTCUSDT'' 500]"
proof -
  let ?ex = "answering [(''USDT'', 10, 1000)] ''FILLED''" and ?b = "account 50 (1 / 2)"
  let ?a = "\<lparr>available = 10, pending = 1000, info = None\<rparr>"
  let ?ex' = "answering [(''USDT'', 1000, 1000)] ''FILLED''" and ?b' = "account 50 (1 / 4)"
  let ?a' = "\<lparr>available = 1000, pending = 1000, info = None\<rparr>"
  have h1: "get_account ?ex = Inr [(''USDT'', 10, 1000)]"
    and h1': "get_account ?ex' = Inr [(''USDT'', 1000, 1000)]"
    by (simp_all add: example_defs)
  have h2: "assets (state_of (refresh_balance ?b ?ex)) ''USDT'' = Some ?a"
    and h2': "assets (state_of (refresh_balance ?b' ?ex')) ''USDT'' = Some ?a'"
    by (simp_all add: example_defs refresh_balance_def upsert_def state_of_def)
  have h3: "min_limit ?b ''USDT'' = Some 50" and h3': "min_limit ?b' ''USDT'' = Some 50"
    by (simp_all add: min_limit_def account_def)
  have spend: "quantity_to_buy ?b ?a = 505" and spend': "quantity_to_buy ?b' ?a' = 500"
    by (simp_all add: quantity_to_buy_def cur_balance_def account_def)
  have rounded: "py_round 500 2 = 500"
    by (simp add: round_defs)
  have "result (buy ?b ?ex ''BTCUSDT'' ''USDT'' 0)
        = Inr (False, ErrorMsg ''Portfolio has no space for new assets'')
      \<and> calls (buy ?b ?ex ''BTCUSDT'' ''USDT'' 0) = [GetAccount]"
    using buy_spend_guard [OF h1 h2 h3, of "''BTCUSDT''" 0] spend by simp
  moreover have "filter is_order (calls (buy ?b' ?ex' ''BTCUSDT'' ''USDT'' 0))
      = [OrderMarketBuy ''BTCUSDT'' 500]"
    using buy_spend_guard [OF h1' h2' h3', of "''BTCUSDT''" 0] spend' rounded
    by (simp add: account_def)
  ultimately show ?thesis
    using spend by simp
qed

text \<open>
  Claim C1 as stated fails: with 10 available, 1000 pending and a risk of one half, the
  amount to spend is 505, which is neither 10 times one half nor at most 10.
\<close>

theorem buy_spend_counterexample:
  "quantity_to_buy (account 50 (1 / 2)) \<lparr>available = 10, pending = 1000, info = None\<rparr> = 505
   \<and> quantity_to_buy (account 50 (1 / 2)) \<lparr>available = 10, pending = 1000, info = None\<rparr>
       \<noteq> available \<lparr>available = 10, pending = 1000, info = None\<rparr> * risk (account 50 (1 / 2))
   \<and> 0 < risk (account 50 (1 / 2)) \<and> risk (account 50 (1 / 2)) \<le> 1
   \<and> available \<lparr>available = 10, pending = 1000, info = None\<rparr>
       < quantity_to_buy (account 50 (1 / 2)) \<lparr>available = 10, pending = 1000, info = None\<rparr>
   \<and> result (buy (account 50 (1 / 2)) (answering [(''USDT'', 10, 1000)] ''FILLED'')
         ''BTCUSDT'' ''USDT'' 0)
       = Inr (False, ErrorMsg ''Portfolio has no space for new assets'')"
  by (simp add: example_defs buy_defs outcome_defs)

section \<open>The quantity of a limit buy\<close>

lemma buy_limit_order:
  assumes "get_account ex = Inr balances"
    and "assets (state_of (refresh_balance b ex)) currency = Some a"
    and "min_limit b currency = Some m"
    and "\<not> available a + pending a < m" and "\<not> available a < quantity_to_buy b a"
    and "price \<noteq> 0"
  shows "filter is_order (calls (buy b ex coin currency price)) =
    [OrderLimitBuy coin price
       (py_round ((available a + pending a) * risk b / price)
          (if currency = ''USDT'' then 2 else 8))]"
proof -
  let ?b1 = "state_of (refresh_balance b ex)"
  have m: "min_limit ?b1 currency = Some m"
    using assms(3) by (simp add: min_limit_refresh)
  show ?thesis
    using assms(4,5) size_and_buy_orders [OF assms(2) m, of ex coin price]
      place_buy_limit [OF coin_precision_of_min_limit [OF assms(3)] assms(6), of ?b1 ex a coin]
    by (simp add: buy_calls [OF assms(1)] cur_balance_def quantity_to_buy_def risk_refresh)
qed

text \<open>
  Claim C2, evaluated on the code. In the example of the claim (1000 available, nothing
  pending, risk 0.1, limit price 20000) the order placed has the quantity
  \<open>round(100 / 20000, 2)\<close>: rounded to the two decimals of the quote currency USDT, to the
  nearest, so a multiple of 0.01 and not 0.005. The lot size is not read. With 1024
  available, risk 1/8 and limit price 16384 the quantity is 0.01, which at that price
  costs more than the 128 to spend.
\<close>

theorem buy_limit_quantity_example:
  "calls (buy (account 50 (1 / 10)) (answering [(''USDT'', 1000, 0), (''BTC'', 0, 0)] ''FILLED'')
      ''BTCUSDT'' ''USDT'' 20000)
     = [GetAccount, OrderLimitBuy ''BTCUSDT'' 20000 (py_round (100 / 20000) 2),
        GetSymbolInfo ''BTCUSDT'']
   \<and> py_round (100 / 20000) 2 \<noteq> 5 / 1000
   \<and> calls (buy (account 50 (1 / 8)) (answering [(''USDT'', 1024, 0), (''BTC'', 0, 0)] ''FILLED'')
      ''BTCUSDT'' ''USDT'' 16384)
     = [GetAccount, OrderLimitBuy ''BTCUSDT'' 16384 (1 / 100), GetSymbolInfo ''BTCUSDT'']
   \<and> (1 / 100) * 16384 > quantity_to_buy (account 50 (1 / 8))
        \<lparr>available = 1024, pending = 0, info = None\<rparr>"
proof -
  have "py_round (100 / 20000) 2 \<noteq> 5 / 1000"
    by (simp add: round_defs floor_rat_one_numeral)
  moreover have "calls (buy (account 50 (1 / 10))
      (answering [(''USDT'', 1000, 0), (''BTC'', 0, 0)] ''FILLED'') ''BTCUSDT'' ''USDT'' 20000)
     = [GetAccount, OrderLimitBuy ''BTCUSDT'' 20000 (py_round (100 / 20000) 2),
        GetSymbolInfo ''BTCUSDT'']"
    by (simp add: example_defs buy_defs outcome_defs)
  moreover have "calls (buy (account 50 (1 / 8))
      (answering [(''USDT'', 1024, 0), (''BTC'', 0, 0)] ''FILLED'') ''BTCUSDT'' ''USDT'' 16384)
     = [GetAccount, OrderLimitBuy ''BTCUSDT'' 16384 (1 / 100), GetSymbolInfo ''BTCUSDT'']"
    by (simp add: example_defs buy_defs outcome_defs round_defs)
  moreover have "(1 / 100) * 16384 > quantity_to_buy (account 50 (1 / 8))
        \<lparr>available = 1024, pending = 0, info = None\<rparr>"
    by (simp add: example_defs quantity_to_buy_def cur_balance_def)
  ultimately show ?thesis by blast
qed

section \<open>The minimum balance\<close>

text \<open>
  Claim C4, as the code has it: the threshold is compared with available plus pending.
  When, after the refresh of the balances, available + pending of the quote currency is
  below the minimum of that currency, \<open>buy\<close> returns \<open>(False, {'error': 'Insufficient funds'})\<close>
  and its only call on the exchange is the balance refresh: no order is placed.
\<close>

theorem buy_below_minimum:
  assumes "get_account ex = Inr balances"
    and "assets (state_of (refresh_balance b ex)) currency = Some a"
    and "min_limit b currency = Some m"
    and "available a + pending a < m"
  shows "result (buy b ex coin currency price) = Inr (False, ErrorMsg ''Insufficient funds'')
    \<and> calls (buy b ex coin currency price) = [GetAccount]
    \<and> no_order (calls (buy b ex coin currency price))"
proof -
  let ?b1 = "state_of (refresh_balance b ex)"
  have m: "min_limit ?b1 currency = Some m"
    using assms(1,3) by (simp add: min_limit_def refresh_balance_def state_of_def)
  have "size_and_buy ?b1 ex coin currency price =
      (Inr (False, ErrorMsg ''Insufficient funds''), ?b1, [])"
    using assms(2,4) m by (intro size_and_buy_below_minimum) (simp_all add: cur_balance_def)
  then have "buy b ex coin currency price =
      (Inr (False, ErrorMsg ''Insufficient funds''), ?b1, [GetAccount])"
    by (simp add: buy_refreshed [OF assms(1)])
  then show ?thesis
    by (simp add: outcome_defs no_order_def)
qed

theorem buy_below_minimum_witness:
  "available \<lparr>available = 16, pending = 8, info = None\<rparr>
     + pending \<lparr>available = 16, pending = 8, info = None\<rparr> < (50 :: rat)
   \<and> result (buy (account 50 (1 / 8)) (answering [(''USDT'', 16, 8)] ''FILLED'')
      ''BTCUSDT'' ''USDT'' 0)
     = Inr (False, ErrorMsg ''Insufficient funds'')
   \<and> calls (buy (account 50 (1 / 8)) (answering [(''USDT'', 16, 8)] ''FILLED'')
      ''BTCUSDT'' ''USDT'' 0)
     = [GetAccount]"
proof -
  let ?ex = "answering [(''USDT'', 16, 8)] ''FILLED''" and ?b = "account 50 (1 / 8)"
  let ?a = "\<lparr>available = 16, pending = 8, info = None\<rparr>"
  have h1: "get_account ?ex = Inr [(''USDT'', 16, 8)]"
    by (simp add: example_defs)
  have h2: "assets (state_of (refresh_balance ?b ?ex)) ''USDT'' = Some ?a"
    by (simp add: example_defs refresh_balance_def upsert_def state_of_def)
  have h3: "min_limit ?b ''USDT'' = Some 50"
    by (simp add: min_limit_def account_def)
  have h4: "available ?a + pending ?a < 50"
    by simp
  from buy_below_minimum [OF h1 h2 h3 h4] h4 show ?thesis
    by blast
qed

text \<open>
  Claim C4 as stated fails: with 16 available, 112 pending, a minimum of 50 and a risk of
  one eighth, the available balance is below the minimum, yet \<open>buy\<close> sizes 128 / 8 = 16,
  places a market order for it and returns success.
\<close>

theorem buy_below_minimum_counterexample:
  "available \<lparr>available = 16, pending = 112, info = None\<rparr> < usdt_min (account 50 (1 / 8))
   \<and> result (buy (account 50 (1 / 8))
         (answering [(''USDT'', 16, 112), (''BTC'', 0, 0)] ''FILLED'') ''BTCUSDT'' ''USDT'' 0)
       = Inr (True, Order [(''status'', ''FILLED'')])
   \<and> calls (buy (account 50 (1 / 8))
         (answering [(''USDT'', 16, 112), (''BTC'', 0, 0)] ''FILLED'') ''BTCUSDT'' ''USDT'' 0)
       = [GetAccount, OrderMarketBuy ''BTCUSDT'' 16, GetSymbolInfo ''BTCUSDT'']"
  by (simp add: example_defs buy_defs outcome_defs round_defs)

section \<open>The quantity of a sell\<close>












section \<open>A sell with an explicit quantity\<close>

text \<open>
  Claim C10. For every call of \<open>sell\<close> with a quantity other than zero, the only call on
  the exchange is the balance refresh, so no order is placed; the call never returns a
  value; and when the refresh returns, so that the final \<open>return\<close> is reached, the
  exception raised is \<open>UnboundLocalError\<close>.
\<close>

theorem sell_explicit_quantity:
  assumes "quantity \<noteq> 0"
  shows "no_order (calls (sell b ex coin currency quantity))
    \<and> calls (sell b ex coin currency quantity) = [GetAccount]
    \<and> (\<forall>v. result (sell b ex coin currency quantity) \<noteq> Inr v)
    \<and> (\<forall>balances. get_account ex = Inr balances \<longrightarrow>
          result (sell b ex coin currency quantity) = Inl UnboundLocalError)"
  using assms
  by (auto simp: sell_def refresh_balance_def outcome_defs no_order_def split: sum.splits)

theorem sell_explicit_quantity_witness:
  "(1 :: rat) \<noteq> 0
   \<and> result (sell (holding ''BTC'' (1 / 1000) 8) (answering [(''BTC'', 2, 0)] ''FILLED'')
      ''BTCUSDT'' ''USDT'' 1) = Inl UnboundLocalError
   \<and> calls (sell (holding ''BTC'' (1 / 1000) 8) (answering [(''BTC'', 2, 0)] ''FILLED'')
      ''BTCUSDT'' ''USDT'' 1) = [GetAccount]"
proof -
  have h: "(1 :: rat) \<noteq> 0" by simp
  have "get_account (answering [(''BTC'', 2, 0)] ''FILLED'') = Inr [(''BTC'', 2, 0)]"
    by (simp add: answering_def)
  with sell_explicit_quantity [OF h, of "holding ''BTC'' (1 / 1000) 8"
      "answering [(''BTC'', 2, 0)] ''FILLED''" "''BTCUSDT''" "''USDT''"]
  show ?thesis by simp
qed

section \<open>The exit predicates\<close>



section \<open>\<open>Bittrex.buy\<close>\<close>

lemma rate_unbound:
  "lookup_name (module_globals ++ buy_locals coin amount price to_spend) ''rate'' = Inl NameError"
  by (simp add: lookup_name_def module_globals_def buy_locals_def map_add_def)

text \<open>
  Claim C8. With \<open>base\<close> the part of \<open>coin\<close> before its first hyphen: every call of
  \<open>Bittrex.buy\<close> whose balance of \<open>base\<close> is above the minimum raises \<open>NameError\<close> (the name
  \<open>rate\<close> is unbound) without any call on the exchange; a call that returns a value returns
  \<open>(False, 'Cash under Minimum limit.')\<close>, and does so because the balance is at most the
  minimum; and no call of \<open>Bittrex.buy\<close> ever reaches the exchange.
\<close>

theorem bittrex_buy_outcomes:
  assumes "py_split (CHR ''-'') coin = base # rest"
  shows "(\<forall>av. bx_available bx base = Some av \<and> \<not> av \<le> bx_min_limit bx \<longrightarrow>
            bittrex_buy bx conn coin amount price = (Inl NameError, []))
    \<and> (\<forall>v. fst (bittrex_buy bx conn coin amount price) = Inr v \<longrightarrow>
            v = (False, Message ''Cash under Minimum limit.'')
            \<and> (\<exists>av. bx_available bx base = Some av \<and> av \<le> bx_min_limit bx))
    \<and> snd (bittrex_buy bx conn coin amount price) = []"
  using assms rate_unbound
  by (auto simp: bittrex_buy_def Let_def split: option.splits)

theorem bittrex_buy_outcomes_witness:
  "py_split (CHR ''-'') ''USDT-BTC'' = ''USDT'' # [''BTC'']
   \<and> bittrex_buy \<lparr>bx_available = [''USDT'' \<mapsto> 1024], bx_min_limit = 50, bx_risk = 1 / 8\<rparr>
      \<lparr>buy_limit = (\<lambda>_ _ _. Inr \<lparr>success = True, message = [], uuid = ''1''\<rparr>),
       get_order = (\<lambda>_. Inr \<lparr>IsOpen = False, PricePerUnit = 1, Quantity = 1\<rparr>),
       cancel = (\<lambda>_. Inr \<lparr>success = True, message = [], uuid = ''1''\<rparr>)\<rparr>
      ''USDT-BTC'' 1 16384 = (Inl NameError, [])
   \<and> fst (bittrex_buy \<lparr>bx_available = [''USDT'' \<mapsto> 32], bx_min_limit = 50, bx_risk = 1 / 8\<rparr>
      \<lparr>buy_limit = (\<lambda>_ _ _. Inr \<lparr>success = True, message = [], uuid = ''1''\<rparr>),
       get_order = (\<lambda>_. Inr \<lparr>IsOpen = False, PricePerUnit = 1, Quantity = 1\<rparr>),
       cancel = (\<lambda>_. Inr \<lparr>success = True, message = [], uuid = ''1''\<rparr>)\<rparr>
      ''USDT-BTC'' 1 16384) = Inr (False, Message ''Cash under Minimum limit.'')"
proof -
  have h: "py_split (CHR ''-'') ''USDT-BTC'' = ''USDT'' # [''BTC'']"
    by simp
  have low: "fst (bittrex_buy
      \<lparr>bx_available = [''USDT'' \<mapsto> 32], bx_min_limit = 50, bx_risk = 1 / 8\<rparr>
      \<lparr>buy_limit = (\<lambda>_ _ _. Inr \<lparr>success = True, message = [], uuid = ''1''\<rparr>),
       get_order = (\<lambda>_. Inr \<lparr>IsOpen = False, PricePerUnit = 1, Quantity = 1\<rparr>),
       cancel = (\<lambda>_. Inr \<lparr>success = True, message = [], uuid = ''1''\<rparr>)\<rparr>
      ''USDT-BTC'' 1 16384) = Inr (False, Message ''Cash under Minimum limit.'')"
    by (simp add: bittrex_buy_def)
  from bittrex_buy_outcomes [OF h,
      of "\<lparr>bx_available = [''USDT'' \<mapsto> 1024], bx_min_limit = 50, bx_risk = 1 / 8\<rparr>"
      "\<lparr>buy_limit = (\<lambda>_ _ _. Inr \<lparr>success = True, message = [], uuid = ''1''\<rparr>),
       get_order = (\<lambda>_. Inr \<lparr>IsOpen = False, PricePerUnit = 1, Quantity = 1\<rparr>),
       cancel = (\<lambda>_. Inr \<lparr>success = True, message = [], uuid = ''1''\<rparr>)\<rparr>" 1 16384]
  have "bittrex_buy \<lparr>bx_available = [''USDT'' \<mapsto> 1024], bx_min_limit = 50, bx_risk = 1 / 8\<rparr>
      \<lparr>buy_limit = (\<lambda>_ _ _. Inr \<lparr>success = True, message = [], uuid = ''1''\<rparr>),
       get_order = (\<lambda>_. Inr \<lparr>IsOpen = False, PricePerUnit = 1, Quantity = 1\<rparr>),
       cancel = (\<lambda>_. Inr \<lparr>success = True, message = [], uuid = ''1''\<rparr>)\<rparr>
      ''USDT-BTC'' 1 16384 = (Inl NameError, [])"
    by simp
  with h low show ?thesis by blast
qed

section \<open>The status of a placed order\<close>

lemma place_buy_returns:
  assumes "coin_precision currency = Some p"
    and "(if price = 0 then order_market_buy ex coin (py_round (quantity_to_buy b a) p)
          else order_limit_buy ex coin price (py_round (quantity_to_buy b a / price) p))
         = Inr buy_order"
  shows "fst (place_buy b ex a coin currency price) = Inr buy_order"
  using assms by (simp add: place_buy_def Let_def split: if_splits)

lemma place_buy_raises:
  assumes "coin_precision currency = Some p"
    and "(if price = 0 then order_market_buy ex coin (py_round (quantity_to_buy b a) p)
          else order_limit_buy ex coin price (py_round (quantity_to_buy b a / price) p))
         = Inl e"
  shows "fst (place_buy b ex a coin currency price) = Inl (ErrorExc e)"
  using assms by (simp add: place_buy_def Let_def split: if_splits)

lemma place_buy_refresh:
  "place_buy (state_of (refresh_balance b ex')) ex a coin currency price =
    place_buy b ex a coin currency price"
  unfolding place_buy_def quantity_to_buy_refresh ..

lemma size_and_buy_placed:
  assumes "assets b currency = Some a" and "min_limit b currency = Some m"
    and "\<not> cur_balance a < m" and "\<not> available a < quantity_to_buy b a"
    and "fst (place_buy b ex a coin currency price) = Inr buy_order"
  shows "fst (size_and_buy b ex coin currency price) =
    fst (check_buy b ex coin currency buy_order)"
  using assms by (simp add: size_and_buy_def case_prod_beta split: sum.splits prod.splits)

lemma size_and_buy_rejected:
  assumes "assets b currency = Some a" and "min_limit b currency = Some m"
    and "\<not> cur_balance a < m" and "\<not> available a < quantity_to_buy b a"
    and "fst (place_buy b ex a coin currency price) = Inl failure"
  shows "fst (size_and_buy b ex coin currency price) = Inr (False, failure)"
  using assms by (simp add: size_and_buy_def case_prod_beta split: sum.splits prod.splits)

lemma check_buy_not_filled:
  assumes "map_of buy_order ''status'' = Some st" and "st \<noteq> ''FILLED''"
  shows "fst (check_buy b ex coin currency buy_order) = Inr (False, Order buy_order)"
  using assms by (simp add: check_buy_def)

lemma check_buy_filled:
  assumes "map_of buy_order ''status'' = Some ''FILLED''"
    and "fst (asset_info ex coin) = Inr i"
    and "assets b (py_remove currency coin) = Some a'"
  shows "fst (check_buy b ex coin currency buy_order) = Inr (True, Order buy_order)"
  using assms by (cases "asset_info ex coin") (simp add: check_buy_def)

lemma check_buy_returned:
  assumes "map_of buy_order ''status'' = Some st"
    and "fst (check_buy b ex coin currency buy_order) = Inr (flag, r)"
  shows "(flag \<longleftrightarrow> st = ''FILLED'') \<and> r = Order buy_order"
  using assms
  by (auto simp: check_buy_def split: prod.splits sum.splits option.splits if_splits)

lemma buy_result_placed:
  assumes "get_account ex = Inr balances"
    and "assets (state_of (refresh_balance b ex)) currency = Some a"
    and "min_limit b currency = Some m"
    and "\<not> available a + pending a < m" and "\<not> available a < quantity_to_buy b a"
    and "(if price = 0
          then order_market_buy ex coin
                 (py_round (quantity_to_buy b a) (if currency = ''USDT'' then 2 else 8))
          else order_limit_buy ex coin price
                 (py_round (quantity_to_buy b a / price) (if currency = ''USDT'' then 2 else 8)))
         = Inr buy_order"
  shows "result (buy b ex coin currency price) =
    fst (check_buy (state_of (refresh_balance b ex)) ex coin currency buy_order)"
proof -
  let ?b1 = "state_of (refresh_balance b ex)"
  have m: "min_limit ?b1 currency = Some m"
    using assms(3) by (simp add: min_limit_refresh)
  have c: "\<not> cur_balance a < m"
    using assms(4) by (simp add: cur_balance_def)
  have q: "\<not> available a < quantity_to_buy ?b1 a"
    using assms(5) by (simp add: quantity_to_buy_refresh)
  have "fst (place_buy b ex a coin currency price) = Inr buy_order"
    by (rule place_buy_returns [OF coin_precision_of_min_limit [OF assms(3)] assms(6)])
  then have "fst (place_buy ?b1 ex a coin currency price) = Inr buy_order"
    by (simp only: place_buy_refresh)
  then have "fst (size_and_buy ?b1 ex coin currency price) =
      fst (check_buy ?b1 ex coin currency buy_order)"
    by (rule size_and_buy_placed [OF assms(2) m c q])
  then show ?thesis
    by (simp add: buy_result [OF assms(1)])
qed

text \<open>
  Claim C7, as the code has it. For every buy that passes the two balance checks and whose
  placement call returns a payload with a status: when the status is not \<open>FILLED\<close>, buy
  returns failure with that payload, unmodified; when the status is \<open>FILLED\<close>, the metadata
  lookup \<open>asset_info(coin)\<close> succeeds and the bought asset has an entry in the ledger, buy
  returns success with that payload; and whenever buy returns a pair at all, the flag is
  true exactly for the status \<open>FILLED\<close> and the result is the payload.
\<close>

theorem buy_status:
  assumes "get_account ex = Inr balances"
    and "assets (state_of (refresh_balance b ex)) currency = Some a"
    and "min_limit b currency = Some m"
    and "\<not> available a + pending a < m" and "\<not> available a < quantity_to_buy b a"
    and "(if price = 0
          then order_market_buy ex coin
                 (py_round (quantity_to_buy b a) (if currency = ''USDT'' then 2 else 8))
          else order_limit_buy ex coin price
                 (py_round (quantity_to_buy b a / price) (if currency = ''USDT'' then 2 else 8)))
         = Inr buy_order"
    and "map_of buy_order ''status'' = Some st"
  shows "(st \<noteq> ''FILLED'' \<longrightarrow>
           result (buy b ex coin currency price) = Inr (False, Order buy_order))
    \<and> (st = ''FILLED'' \<longrightarrow>
         (\<forall>i a'. fst (asset_info ex coin) = Inr i
             \<and> assets (state_of (refresh_balance b ex)) (py_remove currency coin) = Some a'
           \<longrightarrow> result (buy b ex coin currency price) = Inr (True, Order buy_order)))
    \<and> (\<forall>flag r. result (buy b ex coin currency price) = Inr (flag, r) \<longrightarrow>
           (flag \<longleftrightarrow> st = ''FILLED'') \<and> r = Order buy_order)"
proof -
  let ?b1 = "state_of (refresh_balance b ex)"
  have eq: "result (buy b ex coin currency price) =
      fst (check_buy ?b1 ex coin currency buy_order)"
    by (rule buy_result_placed [OF assms(1-6)])
  show ?thesis
    unfolding eq
    using check_buy_not_filled [OF assms(7), of ?b1 ex coin currency]
      check_buy_filled [of buy_order ex coin _ ?b1 currency]
      check_buy_returned [OF assms(7), of ?b1 ex coin currency]
      assms(7)
    by blast
qed


theorem buy_status_witness:
  "result (buy (account 50 (1 / 8)) (answering [(''USDT'', 1024, 0), (''BTC'', 0, 0)] ''NEW'')
      ''BTCUSDT'' ''USDT'' 0) = Inr (False, Order [(''status'', ''NEW'')])
   \<and> result (buy (account 50 (1 / 8)) (answering [(''USDT'', 1024, 0), (''BTC'', 0, 0)] ''FILLED'')
      ''BTCUSDT'' ''USDT'' 0) = Inr (True, Order [(''status'', ''FILLED'')])"
proof -
  let ?bal = "[(''USDT'', 1024, 0), (''BTC'', 0, 0)]"
  let ?b = "account 50 (1 / 8)"
  let ?a = "\<lparr>available = 1024, pending = 0, info = None\<rparr>"
  have h1: "get_account (answering ?bal st) = Inr ?bal" for st
    by (simp add: answering_def)
  have h2: "assets (state_of (refresh_balance ?b (answering ?bal st))) ''USDT'' = Some ?a" for st
    by (simp add: example_defs refresh_balance_def upsert_def state_of_def)
  have h3: "min_limit ?b ''USDT'' = Some 50"
    by (simp add: min_limit_def account_def)
  have h4: "\<not> available ?a + pending ?a < 50"
    and h5: "\<not> available ?a < quantity_to_buy ?b ?a"
    by (simp_all add: quantity_to_buy_def cur_balance_def account_def)
  have h6: "(if (0 :: rat) = 0
          then order_market_buy (answering ?bal st) ''BTCUSDT''
                 (py_round (quantity_to_buy ?b ?a) (if ''USDT'' = ''USDT'' then 2 else 8))
          else order_limit_buy (answering ?bal st) ''BTCUSDT'' 0
                 (py_round (quantity_to_buy ?b ?a / 0) (if ''USDT'' = ''USDT'' then 2 else 8)))
         = Inr [(''status'', st)]" for st
    by (simp add: answering_def)
  have h7: "map_of [(''status'', st)] ''status'' = Some st" for st :: string
    by simp
  have i: "fst (asset_info (answering ?bal ''FILLED'') ''BTCUSDT'') =
      Inr \<lparr>symbol = ''BTCUSDT'', precision = 8, lot_size = 1 / 1000,
           more_data = \<lparr>sd_symbol = ''BTCUSDT'', quoteAssetPrecision = 8,
                         filters = [(''PRICE_FILTER'', 1 / 100), (''LOT_SIZE'', 1 / 1000)]\<rparr>\<rparr>"
    by (simp add: asset_info_def answering_def)
  have a': "assets (state_of (refresh_balance ?b (answering ?bal ''FILLED'')))
      (py_remove ''USDT'' ''BTCUSDT'') = Some \<lparr>available = 0, pending = 0, info = None\<rparr>"
    by (simp add: example_defs refresh_balance_def upsert_def state_of_def)
  have "result (buy ?b (answering ?bal ''NEW'') ''BTCUSDT'' ''USDT'' 0) =
      Inr (False, Order [(''status'', ''NEW'')])"
    using buy_status [OF h1 h2 h3 h4 h5 h6 h7, of "''NEW''"] by simp
  moreover have "result (buy ?b (answering ?bal ''FILLED'') ''BTCUSDT'' ''USDT'' 0) =
      Inr (True, Order [(''status'', ''FILLED'')])"
    using buy_status [OF h1 h2 h3 h4 h5 h6 h7, of "''FILLED''"] i a' by blast
  ultimately show ?thesis by blast
qed

text \<open>
  Claim C7 as stated fails: a market buy of \<open>ETHBTC\<close> with the default quote currency
  \<open>USDT\<close> is placed and answered \<open>FILLED\<close>, then the ledger is indexed with the name
  \<open>ETHBTC\<close> (the symbol with \<open>USDT\<close> removed), which it does not hold, and buy raises
  \<open>KeyError\<close> instead of returning success.
\<close>

theorem buy_status_counterexample:
  "order_market_buy (answering [(''USDT'', 1024, 0), (''BTC'', 1, 0), (''ETH'', 0, 0)] ''FILLED'')
      ''ETHBTC'' 128 = Inr [(''status'', ''FILLED'')]
   \<and> result (buy (account 50 (1 / 8))
        (answering [(''USDT'', 1024, 0), (''BTC'', 1, 0), (''ETH'', 0, 0)] ''FILLED'')
        ''ETHBTC'' ''USDT'' 0) = Inl KeyError
   \<and> calls (buy (account 50 (1 / 8))
        (answering [(''USDT'', 1024, 0), (''BTC'', 1, 0), (''ETH'', 0, 0)] ''FILLED'')
        ''ETHBTC'' ''USDT'' 0)
      = [GetAccount, OrderMarketBuy ''ETHBTC'' 128, GetSymbolInfo ''ETHBTC'']"
  by (simp add: example_defs buy_defs outcome_defs round_defs)

section \<open>Failures as results\<close>

lemma sell_rejected:
  assumes "get_account ex = Inr balances"
    and "assets (state_of (refresh_balance b ex)) (py_remove currency coin) = Some a"
    and "prec_quantity a = Inr q" and "order_market_sell ex coin q = Inl e"
  shows "result (sell b ex coin currency 0) =
    Inr (False, SellFailure e coin q (available a) (info a))"
  using assms by (simp add: sell_def refresh_balance_def outcome_defs)

lemma get_balances_result:
  assumes "get_account ex = Inr balances"
  shows "result (get_balances b ex cn) =
    (case cn of
       NoCoins \<Rightarrow> Inr (Dict (assets (state_of (refresh_balance b ex))))
     | CoinList xs \<Rightarrow>
         if xs = [] then Inr (Dict (assets (state_of (refresh_balance b ex))))
         else if list_all (\<lambda>c. assets (state_of (refresh_balance b ex)) c \<noteq> None) xs
         then Inr (Dict (assets (state_of (refresh_balance b ex)) |` set xs))
         else Inl KeyError
     | OneCoin c \<Rightarrow>
         if c = [] then Inr (Dict (assets (state_of (refresh_balance b ex))))
         else (case assets (state_of (refresh_balance b ex)) c of
                 None \<Rightarrow> Inl KeyError
               | Some x \<Rightarrow> Inr (Entry x)))"
  using assms
  by (simp add: get_balances_def refresh_balance_def outcome_defs
      split: coins.splits option.splits)

lemma cancel_order_result:
  "result (cancel_order b ex sy order_id) = conn_cancel_order ex sy order_id"
  by (simp add: cancel_order_def result_def split: sum.splits)

text \<open>
  Claim C3, as the code has it. After a refresh that returns, for a quote currency in the
  ledger that has a minimum: \<open>buy\<close> returns a pair with the flag false for a balance below
  the minimum, for a spend above the available balance, for an exception raised by the
  placement call, and for a placed order whose status is not \<open>FILLED\<close>; \<open>sell\<close> without a
  quantity returns a pair with the flag false when the placement call raises;
  \<open>get_balances\<close> returns the ledger, a part of it or one entry, not a pair, and raises
  \<open>KeyError\<close> for a name the ledger does not hold; \<open>cancel_order\<close> returns what the
  exchange answers, and raises what the exchange call raises.
\<close>

theorem failures_as_results:
  assumes "get_account ex = Inr balances"
    and "assets (state_of (refresh_balance b ex)) currency = Some a"
    and "min_limit b currency = Some m"
  shows "(available a + pending a < m \<longrightarrow>
          result (buy b ex coin currency price) = Inr (False, ErrorMsg ''Insufficient funds''))
    \<and> (\<not> available a + pending a < m \<and> available a < quantity_to_buy b a \<longrightarrow>
          result (buy b ex coin currency price) =
            Inr (False, ErrorMsg ''Portfolio has no space for new assets''))
    \<and> (\<not> available a + pending a < m \<and> \<not> available a < quantity_to_buy b a \<longrightarrow>
         (\<forall>e. (if price = 0
               then order_market_buy ex coin
                      (py_round (quantity_to_buy b a) (if currency = ''USDT'' then 2 else 8))
               else order_limit_buy ex coin price
                      (py_round (quantity_to_buy b a / price)
                         (if currency = ''USDT'' then 2 else 8)))
              = Inl e \<longrightarrow>
              result (buy b ex coin currency price) = Inr (False, ErrorExc e))
       \<and> (\<forall>buy_order st.
             (if price = 0
               then order_market_buy ex coin
                      (py_round (quantity_to_buy b a) (if currency = ''USDT'' then 2 else 8))
               else order_limit_buy ex coin price
                      (py_round (quantity_to_buy b a / price)
                         (if currency = ''USDT'' then 2 else 8)))
              = Inr buy_order \<and> map_of buy_order ''status'' = Some st \<and> st \<noteq> ''FILLED'' \<longrightarrow>
              result (buy b ex coin currency price) = Inr (False, Order buy_order)))
    \<and> (\<forall>sold held q e.
          assets (state_of (refresh_balance b ex)) (py_remove currency sold) = Some held
          \<and> prec_quantity held = Inr q \<and> order_market_sell ex sold q = Inl e \<longrightarrow>
          result (sell b ex sold currency 0) =
            Inr (False, SellFailure e sold q (available held) (info held)))
    \<and> (\<forall>c. c \<noteq> [] \<longrightarrow>
          result (get_balances b ex (OneCoin c)) =
            (case assets (state_of (refresh_balance b ex)) c of
               None \<Rightarrow> Inl KeyError
             | Some x \<Rightarrow> Inr (Entry x)))
    \<and> (\<forall>xs. xs \<noteq> [] \<longrightarrow>
          result (get_balances b ex (CoinList xs)) =
            (if list_all (\<lambda>c. assets (state_of (refresh_balance b ex)) c \<noteq> None) xs
             then Inr (Dict (assets (state_of (refresh_balance b ex)) |` set xs))
             else Inl KeyError))
    \<and> result (get_balances b ex NoCoins) = Inr (Dict (assets (state_of (refresh_balance b ex))))
    \<and> result (cancel_order b ex sy order_id) = conn_cancel_order ex sy order_id"
proof -
  let ?b1 = "state_of (refresh_balance b ex)"
  let ?placement = "if price = 0
      then order_market_buy ex coin
             (py_round (quantity_to_buy b a) (if currency = ''USDT'' then 2 else 8))
      else order_limit_buy ex coin price
             (py_round (quantity_to_buy b a / price) (if currency = ''USDT'' then 2 else 8))"
  have m: "min_limit ?b1 currency = Some m"
    using assms(3) by (simp add: min_limit_refresh)
  have low: "result (buy b ex coin currency price) = Inr (False, ErrorMsg ''Insufficient funds'')"
    if "available a + pending a < m"
    using that size_and_buy_below_minimum [OF assms(2) m, of ex coin price]
    by (simp add: buy_result [OF assms(1)] cur_balance_def)
  have over: "result (buy b ex coin currency price) =
      Inr (False, ErrorMsg ''Portfolio has no space for new assets'')"
    if "\<not> available a + pending a < m \<and> available a < quantity_to_buy b a"
    using that size_and_buy_no_space [OF assms(2) m, of ex coin price]
    by (simp add: buy_result [OF assms(1)] cur_balance_def quantity_to_buy_refresh)
  have raised: "result (buy b ex coin currency price) = Inr (False, ErrorExc e)"
    if pass: "\<not> available a + pending a < m \<and> \<not> available a < quantity_to_buy b a"
      and e: "?placement = Inl e" for e
  proof -
    have "fst (place_buy b ex a coin currency price) = Inl (ErrorExc e)"
      by (rule place_buy_raises [OF coin_precision_of_min_limit [OF assms(3)] e])
    then have "fst (place_buy ?b1 ex a coin currency price) = Inl (ErrorExc e)"
      by (simp only: place_buy_refresh)
    then have "fst (size_and_buy ?b1 ex coin currency price) = Inr (False, ErrorExc e)"
      using pass
      by (intro size_and_buy_rejected [OF assms(2) m])
        (simp_all add: cur_balance_def quantity_to_buy_refresh)
    then show ?thesis
      by (simp add: buy_result [OF assms(1)])
  qed
  have unfilled: "result (buy b ex coin currency price) = Inr (False, Order buy_order)"
    if pass: "\<not> available a + pending a < m \<and> \<not> available a < quantity_to_buy b a"
      and p: "?placement = Inr buy_order" and st: "map_of buy_order ''status'' = Some st"
      and nf: "st \<noteq> ''FILLED''" for buy_order st
    using buy_result_placed [OF assms(1-3) _ _ p] check_buy_not_filled [OF st nf] pass
    by simp
  have sold: "result (sell b ex sold currency 0) =
      Inr (False, SellFailure e sold q (available held) (info held))"
    if "assets ?b1 (py_remove currency sold) = Some held \<and> prec_quantity held = Inr q
      \<and> order_market_sell ex sold q = Inl e" for sold held q e
    using that sell_rejected [OF assms(1), of b currency sold held q e] by blast
  have one: "result (get_balances b ex (OneCoin c)) =
      (case assets ?b1 c of None \<Rightarrow> Inl KeyError | Some x \<Rightarrow> Inr (Entry x))"
    if "c \<noteq> []" for c
    using that by (simp add: get_balances_result [OF assms(1)])
  have many: "result (get_balances b ex (CoinList xs)) =
      (if list_all (\<lambda>c. assets ?b1 c \<noteq> None) xs then Inr (Dict (assets ?b1 |` set xs))
       else Inl KeyError)"
    if "xs \<noteq> []" for xs
    using that by (simp add: get_balances_result [OF assms(1)])
  have all: "result (get_balances b ex NoCoins) = Inr (Dict (assets ?b1))"
    by (simp add: get_balances_result [OF assms(1)])
  from low over raised unfilled sold one many all cancel_order_result show ?thesis
    by blast
qed


theorem failures_as_results_witness:
  "result (buy (account 50 (1 / 8)) (rejecting [(''USDT'', 1024, 0), (''BTC'', 2, 0)])
      ''BTCUSDT'' ''USDT'' 0) = Inr (False, ErrorExc (ExchangeError ''rejected''))
   \<and> result (get_balances (account 50 (1 / 8)) (rejecting [(''USDT'', 1024, 0), (''BTC'', 2, 0)])
      (OneCoin ''BTC'')) = Inr (Entry \<lparr>available = 2, pending = 0, info = None\<rparr>)
   \<and> result (cancel_order (account 50 (1 / 8)) (rejecting [(''USDT'', 1024, 0), (''BTC'', 2, 0)])
      ''BTCUSDT'' ''7'') = Inr [(''status'', ''CANCELED'')]"
proof -
  let ?bal = "[(''USDT'', 1024, 0), (''BTC'', 2, 0)]"
  let ?b = "account 50 (1 / 8)" and ?ex = "rejecting [(''USDT'', 1024, 0), (''BTC'', 2, 0)]"
  let ?a = "\<lparr>available = 1024, pending = 0, info = None\<rparr>"
  have h1: "get_account ?ex = Inr ?bal"
    by (simp add: example_defs)
  have h2: "assets (state_of (refresh_balance ?b ?ex)) ''USDT'' = Some ?a"
    by (simp add: example_defs refresh_balance_def upsert_def state_of_def)
  have h3: "min_limit ?b ''USDT'' = Some 50"
    by (simp add: min_limit_def account_def)
  have pass: "\<not> available ?a + pending ?a < 50 \<and> \<not> available ?a < quantity_to_buy ?b ?a"
    by (simp add: quantity_to_buy_def cur_balance_def account_def)
  have rej: "(if (0 :: rat) = 0
      then order_market_buy ?ex ''BTCUSDT''
             (py_round (quantity_to_buy ?b ?a) (if ''USDT'' = ''USDT'' then 2 else 8))
      else order_limit_buy ?ex ''BTCUSDT'' 0
             (py_round (quantity_to_buy ?b ?a / 0) (if ''USDT'' = ''USDT'' then 2 else 8)))
      = Inl (ExchangeError ''rejected'')"
    by (simp add: example_defs)
  have btc: "assets (state_of (refresh_balance ?b ?ex)) ''BTC'' =
      Some \<lparr>available = 2, pending = 0, info = None\<rparr>"
    by (simp add: example_defs refresh_balance_def upsert_def state_of_def)
  have cancelled: "conn_cancel_order ?ex ''BTCUSDT'' ''7'' = Inr [(''status'', ''CANCELED'')]"
    by (simp add: example_defs)
  note inst = failures_as_results [OF h1 h2 h3, of "''BTCUSDT''" 0 "''BTCUSDT''" "''7''"]
  have "result (buy ?b ?ex ''BTCUSDT'' ''USDT'' 0) = Inr (False, ErrorExc (ExchangeError ''rejected''))"
    using inst pass rej by blast
  moreover have "result (get_balances ?b ?ex (OneCoin ''BTC'')) =
      Inr (Entry \<lparr>available = 2, pending = 0, info = None\<rparr>)"
    using inst btc by simp
  moreover have "result (cancel_order ?b ?ex ''BTCUSDT'' ''7'') = Inr [(''status'', ''CANCELED'')]"
    using inst cancelled by simp
  ultimately show ?thesis by blast
qed

text \<open>
  Claim C3 as stated fails: asking \<open>get_balances\<close> for an asset the ledger does not hold
  raises \<open>KeyError\<close> to the caller.
\<close>

theorem failures_as_results_counterexample:
  "result (get_balances (account 50 (1 / 8)) (answering [(''USDT'', 1024, 0)] ''FILLED'')
      (OneCoin ''XYZ'')) = Inl KeyError"
  by (simp add: example_defs get_balances_def refresh_balance_def upsert_def outcome_defs)

end
